theory Spec2Isabelle
  imports Main
begin

section \<open>The VISCA command object of node-visca\<close>

text \<open>
  A shallow embedding of the class \<open>ViscaCommand\<close> (the second file of
  \<open>src/src/visca-serial.ts\<close>): the packet encoder \<open>toPacket\<close> with its private
  \<open>_header\<close>, the decoder \<open>_parsePacket\<close> / \<open>fromPacket\<close>, the constructor, the three
  lifecycle handlers and the zoom and focus drive builders.

  JavaScript numbers are modelled as \<open>int\<close>: every field the code computes with holds an
  integer. The bitwise operators of JavaScript first convert their operands to 32-bit
  two's complement (\<open>ToInt32\<close>); that conversion is written out below.
\<close>

unbundle bit_operations_syntax

subsection \<open>Bitwise operators of JavaScript\<close>

definition ToInt32 :: "int \<Rightarrow> int" where
  "ToInt32 x = signed_take_bit 31 x"

text \<open>\<open>a & b\<close>\<close>
definition js_and :: "int \<Rightarrow> int \<Rightarrow> int" where
  "js_and a b = ToInt32 a AND ToInt32 b"

text \<open>\<open>a | b\<close>\<close>
definition js_or :: "int \<Rightarrow> int \<Rightarrow> int" where
  "js_or a b = ToInt32 a OR ToInt32 b"

text \<open>\<open>a << n\<close>: the shift count is taken modulo 32 and the result is again 32 bits wide.\<close>
definition js_shl :: "int \<Rightarrow> nat \<Rightarrow> int" where
  "js_shl a n = ToInt32 (push_bit (n mod 32) (ToInt32 a))"

text \<open>\<open>a >> n\<close>: the sign-propagating right shift.\<close>
definition js_shr :: "int \<Rightarrow> nat \<Rightarrow> int" where
  "js_shr a n = drop_bit (n mod 32) (ToInt32 a)"

text \<open>
  An array read \<open>packet[i]\<close>: \<open>undefined\<close> (here \<open>None\<close>) beyond the end of the array.
  A bitwise operator reads \<open>undefined\<close> as 0.
\<close>
definition index :: "'a list \<Rightarrow> nat \<Rightarrow> 'a option" where
  "index xs i = (if i < length xs then Some (xs ! i) else None)"

definition num :: "int option \<Rightarrow> int" where
  "num v = (case v of None \<Rightarrow> 0 | Some n \<Rightarrow> n)"

text \<open>
  \<open>Array.prototype.slice(start, end)\<close>: a negative index counts from the end, both
  indices are clamped to the array, and an empty range gives the empty array.
\<close>
definition slice :: "'a list \<Rightarrow> int \<Rightarrow> int \<Rightarrow> 'a list" where
  "slice xs start end' =
     (let n = int (length xs);
          k = (if start < 0 then max (n + start) 0 else min start n);
          f = (if end' < 0 then max (n + end') 0 else min end' n)
      in take (nat (f - k)) (drop (nat k) xs))"

subsection \<open>\<open>Number.prototype.toString(16)\<close> and \<open>_hexify\<close>\<close>

definition hexdigit :: "nat \<Rightarrow> char" where
  "hexdigit d = ''0123456789abcdef'' ! (d mod 16)"

function toString16_nat :: "nat \<Rightarrow> string" where
  "toString16_nat n =
     (if n < 16 then [hexdigit n] else toString16_nat (n div 16) @ [hexdigit (n mod 16)])"
  by pat_completeness auto
termination
  by (relation "measure id") auto

declare toString16_nat.simps [simp del]

definition toString16 :: "int \<Rightarrow> string" where
  "toString16 n = (if n < 0 then CHR ''-'' # toString16_nat (nat (- n)) else toString16_nat (nat n))"

text \<open>\<open>hex.join(' ')\<close>\<close>
fun join :: "string list \<Rightarrow> string" where
  "join [] = []"
| "join [s] = s"
| "join (s # t # ss) = s @ CHR '' '' # join (t # ss)"

text \<open>\<open>_hexify(data)\<close>\<close>
definition hexify :: "int list \<Rightarrow> string" where
  "hexify ns = join (map toString16 ns)"

subsection \<open>The protocol constants\<close>

text \<open>
  \<open>constants.ts\<close> is not among the sources. The functions below take the constants
  they read as a record, so that what is proved of them holds for every value the missing
  file may give.
\<close>

record Constants =
  MSGTYPE_COMMAND :: int
  MSGTYPE_INQUIRY :: int
  MSGTYPE_ADDRESS_SET :: int
  MSGTYPE_NETCHANGE :: int
  MSGTYPE_ACK :: int
  MSGTYPE_COMPLETE :: int
  MSGTYPE_ERROR :: int
  HEADERMASK_SOURCE :: int
  HEADERMASK_RECIPIENT :: int
  HEADERMASK_BROADCAST :: int
  DATATYPE_CAMERA :: int
  CAM_ZOOM :: int
  DATA_RESET :: int

text \<open>
  Modelled from the spec: the values of \<open>constants.ts\<close>, which is missing. The spec gives
  Command = 0x01, Inquiry = 0x09, Ack = 0x40, Complete = 0x50, the source in bits 6-4 of
  the header, the recipient in bits 2-0 and the broadcast flag in bit 3, and the camera
  category 0x04 (the power-on packet \<open>[0x80, 0x01, 0x04, 0x00, 0x02, 0xFF]\<close>). It names
  AddressSet, NetworkChange and Error without a value, and the zoom opcode and the reset
  value not at all: for these the record holds the values of the VISCA protocol (0x30, 0x38,
  0x60, 0x07, 0x00). It is used for concrete packets only.
\<close>
definition C_visca :: Constants where
  "C_visca = \<lparr> MSGTYPE_COMMAND = 0x01, MSGTYPE_INQUIRY = 0x09, MSGTYPE_ADDRESS_SET = 0x30,
     MSGTYPE_NETCHANGE = 0x38, MSGTYPE_ACK = 0x40, MSGTYPE_COMPLETE = 0x50,
     MSGTYPE_ERROR = 0x60, HEADERMASK_SOURCE = 0x70, HEADERMASK_RECIPIENT = 0x07,
     HEADERMASK_BROADCAST = 0x08, DATATYPE_CAMERA = 0x04, CAM_ZOOM = 0x07,
     DATA_RESET = 0x00 \<rparr>"

subsection \<open>The command\<close>

text \<open>
  A value that \<open>data\<close> holds in \<open>handleComplete\<close>: \<open>undefined\<close> (or \<open>null\<close>, which
  \<open>== undefined\<close> does not tell apart), an array of numbers, or a typed result of a parser
  together with its \<open>length\<close> property: \<open>Some n\<close> for a result that has one (a string,
  an array of other values), \<open>None\<close> for a result that has none (a number, a boolean, a
  telemetry object), where \<open>undefined == 0\<close> is false.
\<close>
datatype 'r jsval = Undefined | Array "int list" | Value 'r "int option"

text \<open>
  The callbacks and the parser are functions of the caller. The model records every call
  the command makes to them, in order, with its arguments; \<open>Call_onComplete None\<close> is
  \<open>onComplete()\<close> with no argument. A callback is taken to return and to leave the
  command as it is; the parser is a function of its argument.
\<close>
datatype 'r event =
    is_onAck: Call_onAck
  | is_onError: Call_onError string
  | is_onComplete: Call_onComplete "'r jsval option"
  | is_dataParser: Call_dataParser "int list"

text \<open>
  The fields of the class. A callback field holds whether the function is defined;
  \<open>dataParser\<close> holds the function. \<open>addedAt\<close> and \<open>sentAt\<close> are declared by the class
  and never read or written by it; they are left out.
\<close>
record 'r ViscaCommand =
  source :: int
  recipient :: int
  broadcast :: bool
  msgType :: int
  socket :: int
  dataType :: int
  data :: "int list"
  packetHexString :: string
  status :: int
  description :: string
  dataParser :: "(int list \<Rightarrow> 'r jsval) option"
  onAck :: bool
  onComplete :: bool
  onError :: bool

text \<open>\<open>_header()\<close>: it writes \<open>broadcast\<close>, so it returns the command as well.\<close>
definition header :: "'r ViscaCommand \<Rightarrow> int \<times> 'r ViscaCommand" where
  "header c =
     (let c1 = (if recipient c > - 1 then c\<lparr>broadcast := False\<rparr> else c)
      in if \<not> broadcast c1
         then (js_or (js_or 0x80 (js_shl (source c1) 4)) (js_and (recipient c1) 0x111), c1)
         else (0x88, c1))"

text \<open>\<open>toPacket()\<close>\<close>
definition toPacket :: "'r ViscaCommand \<Rightarrow> int list \<times> 'r ViscaCommand" where
  "toPacket c =
     (let (h, c1) = header c;
          qq = js_or (msgType c1) (socket c1);
          rr = dataType c1
      in if rr > 0 then ([h, qq, rr] @ data c1 @ [0xff], c1)
         else ([h, qq] @ data c1 @ [0xff], c1))"

text \<open>\<open>_parsePacket(packet)\<close>\<close>
definition parsePacket :: "Constants \<Rightarrow> int list \<Rightarrow> 'r ViscaCommand \<Rightarrow> 'r ViscaCommand" where
  "parsePacket C packet c =
     (let c1 = c\<lparr>packetHexString := hexify packet\<rparr>;
          h = num (index packet 0);
          c2 = c1\<lparr>source := js_shr (js_and h (HEADERMASK_SOURCE C)) 4\<rparr>;
          c3 = c2\<lparr>recipient := js_and h (HEADERMASK_RECIPIENT C)\<rparr>;
          c4 = c3\<lparr>broadcast := (js_shr (js_and h (HEADERMASK_BROADCAST C)) 3 = 1)\<rparr>;
          b1 = index packet 1;
          c5 = (if b1 = Some (MSGTYPE_COMMAND C) \<or> b1 = Some (MSGTYPE_INQUIRY C)
                  \<or> b1 = Some (MSGTYPE_ADDRESS_SET C) \<or> b1 = Some (MSGTYPE_NETCHANGE C)
                then c4\<lparr>msgType := num b1, socket := 0\<rparr>
                else c4\<lparr>socket := js_and (num b1) 0x0F, msgType := js_and (num b1) 0xF0\<rparr>);
          d = slice packet 2 (int (length packet) - 1)
      in if length d < 2 then c5\<lparr>data := d, dataType := 0\<rparr>
         else c5\<lparr>data := tl d, dataType := hd d\<rparr>)"

text \<open>
  Modelled from the spec: \<open>Parsers.NoParser.parse\<close>, the default of \<open>dataParser\<close>, of the
  missing \<open>parsers.ts\<close>; the spec has the parser default to the identity.
\<close>
definition NoParser_parse :: "int list \<Rightarrow> 'r jsval" where
  "NoParser_parse bytes = Array bytes"

text \<open>
  \<open>ViscaCommandParams\<close>: every field is optional, and the constructor gives an absent
  one its default. (\<open>status\<close> of the parameters is never read.)
\<close>
record 'r ViscaCommandParams =
  p_description :: "string option"
  p_source :: "int option"
  p_recipient :: "int option"
  p_broadcast :: "bool option"
  p_msgType :: "int option"
  p_socket :: "int option"
  p_dataType :: "int option"
  p_data :: "int list option"
  p_onComplete :: bool
  p_onError :: bool
  p_onAck :: bool
  p_dataParser :: "(int list \<Rightarrow> 'r jsval) option"

text \<open>The parameter object \<open>{}\<close>.\<close>
definition no_params :: "'r ViscaCommandParams" where
  "no_params = \<lparr> p_description = None, p_source = None, p_recipient = None,
     p_broadcast = None, p_msgType = None, p_socket = None, p_dataType = None,
     p_data = None, p_onComplete = False, p_onError = False, p_onAck = False,
     p_dataParser = None \<rparr>"

definition default :: "'a \<Rightarrow> 'a option \<Rightarrow> 'a" where
  "default d v = (case v of None \<Rightarrow> d | Some x \<Rightarrow> x)"

text \<open>The constructor. Its last statement encodes the command, which may clear \<open>broadcast\<close>.\<close>
definition new_ViscaCommand :: "Constants \<Rightarrow> 'r ViscaCommandParams \<Rightarrow> 'r ViscaCommand" where
  "new_ViscaCommand C p =
     (let c = \<lparr> source = default 0 (p_source p),
                recipient = default (- 1) (p_recipient p),
                broadcast = default True (p_broadcast p),
                msgType = default (MSGTYPE_COMMAND C) (p_msgType p),
                socket = default 0 (p_socket p),
                dataType = default 0 (p_dataType p),
                data = default [] (p_data p),
                packetHexString = [],
                status = 0,
                description = default [] (p_description p),
                dataParser = Some (default NoParser_parse (p_dataParser p)),
                onAck = p_onAck p,
                onComplete = p_onComplete p,
                onError = p_onError p \<rparr>;
          (packet, c1) = toPacket c
      in c1\<lparr>packetHexString := hexify packet\<rparr>)"

text \<open>\<open>static fromPacket(packet)\<close>\<close>
definition fromPacket :: "Constants \<Rightarrow> int list \<Rightarrow> 'r ViscaCommand" where
  "fromPacket C packet = parsePacket C packet (new_ViscaCommand C no_params)"

subsection \<open>The lifecycle handlers\<close>

text \<open>
  A handler runs on the command and the calls made so far, and returns both. The status
  values are the reply types of the constants; the constructor's 0 is the pending state.
\<close>

text \<open>\<open>handleAck()\<close>\<close>
fun handleAck :: "Constants \<Rightarrow> 'r ViscaCommand \<times> 'r event list
    \<Rightarrow> 'r ViscaCommand \<times> 'r event list" where
  "handleAck C (c, calls) =
     (let c1 = c\<lparr>status := MSGTYPE_ACK C\<rparr>
      in if onAck c1 then (c1, calls @ [Call_onAck]) else (c1, calls))"

text \<open>\<open>handleError(err)\<close>\<close>
fun handleError :: "Constants \<Rightarrow> string \<Rightarrow> 'r ViscaCommand \<times> 'r event list
    \<Rightarrow> 'r ViscaCommand \<times> 'r event list" where
  "handleError C err (c, calls) =
     (let c1 = c\<lparr>status := MSGTYPE_ERROR C\<rparr>
      in if onError c1 then (c1, calls @ [Call_onError err]) else (c1, calls))"

text \<open>
  The test \<open>data == undefined || data.length == 0\<close> of \<open>handleComplete\<close>, on the value
  that \<open>data\<close> holds after the parser has run.
\<close>
fun no_data :: "'r jsval \<Rightarrow> bool" where
  "no_data Undefined = True"
| "no_data (Array bytes) = (length bytes = 0)"
| "no_data (Value v len) = (len = Some 0)"

text \<open>\<open>handleComplete(data)\<close>; the argument is \<open>None\<close> when the caller passes none.\<close>
fun handleComplete :: "Constants \<Rightarrow> int list option \<Rightarrow> 'r ViscaCommand \<times> 'r event list
    \<Rightarrow> 'r ViscaCommand \<times> 'r event list" where
  "handleComplete C raw (c, calls) =
     (let c1 = c\<lparr>status := MSGTYPE_COMPLETE C\<rparr>;
          (d, calls1) =
            (case (dataParser c1, raw) of
               (Some parse, Some bytes) \<Rightarrow> (parse bytes, calls @ [Call_dataParser bytes])
             | (None, Some bytes) \<Rightarrow> (Array bytes, calls)
             | (_, None) \<Rightarrow> (Undefined, calls))
      in if onComplete c1
         then (if no_data d then (c1, calls1 @ [Call_onComplete None])
               else (c1, calls1 @ [Call_onComplete (Some d)]))
         else (c1, calls1))"

subsection \<open>The builders\<close>

text \<open>\<open>static cmd(recipient, dataType, data, description)\<close>\<close>
definition cmd :: "Constants \<Rightarrow> int \<Rightarrow> int \<Rightarrow> int list \<Rightarrow> string \<Rightarrow> 'r ViscaCommand" where
  "cmd C recipient' dataType' data' description' =
     new_ViscaCommand C (no_params\<lparr> p_msgType := Some (MSGTYPE_COMMAND C),
       p_dataType := Some dataType', p_recipient := Some recipient', p_data := Some data',
       p_description := Some description' \<rparr>)"

text \<open>\<open>static cmdCamera(recipient, data, description)\<close>\<close>
definition cmdCamera :: "Constants \<Rightarrow> int \<Rightarrow> int list \<Rightarrow> string \<Rightarrow> 'r ViscaCommand" where
  "cmdCamera C recipient' data' description' = cmd C recipient' (DATATYPE_CAMERA C) data' description'"

text \<open>
  \<open>static cmdCameraZoom(device, offinout = C.DATA_RESET, speed = -1)\<close>; an argument the
  caller leaves out is \<open>None\<close>.
\<close>
definition cmdCameraZoom :: "Constants \<Rightarrow> int \<Rightarrow> int option \<Rightarrow> int option \<Rightarrow> 'r ViscaCommand" where
  "cmdCameraZoom C device offinout speed =
     (let offinout1 = default (DATA_RESET C) offinout;
          speed1 = default (- 1) speed;
          d = (if speed1 > - 1 \<and> offinout1 \<noteq> DATA_RESET C
               then js_shl offinout1 8 + js_and speed1 7 else offinout1);
          subcmd = [CAM_ZOOM C, d]
      in cmdCamera C device subcmd [])"

text \<open>\<open>static cmdCameraFocus(device, stopfarnear = C.DATA_RESET, speed = -1)\<close>\<close>
definition cmdCameraFocus :: "Constants \<Rightarrow> int \<Rightarrow> int option \<Rightarrow> int option \<Rightarrow> 'r ViscaCommand" where
  "cmdCameraFocus C device stopfarnear speed =
     (let stopfarnear1 = default (DATA_RESET C) stopfarnear;
          speed1 = default (- 1) speed;
          d = (if speed1 > - 1 \<and> stopfarnear1 \<noteq> DATA_RESET C
               then js_shl stopfarnear1 8 + js_and speed1 7 else stopfarnear1);
          subcmd = [CAM_ZOOM C, d]
      in cmdCamera C device subcmd [])"

subsection \<open>Sequences of calls\<close>

text \<open>
  The operations a caller can invoke on a built command, and a run of them in order on
  the command and its record of calls.
\<close>
datatype operation =
    is_ToPacket: ToPacket
  | is_HandleAck: HandleAck
  | is_HandleError: HandleError string
  | is_HandleComplete: HandleComplete "int list option"

fun invoke :: "Constants \<Rightarrow> operation \<Rightarrow> 'r ViscaCommand \<times> 'r event list
    \<Rightarrow> 'r ViscaCommand \<times> 'r event list" where
  "invoke C ToPacket (c, calls) = (snd (toPacket c), calls)"
| "invoke C HandleAck s = handleAck C s"
| "invoke C (HandleError err) s = handleError C err s"
| "invoke C (HandleComplete raw) s = handleComplete C raw s"

fun run :: "Constants \<Rightarrow> operation list \<Rightarrow> 'r ViscaCommand \<times> 'r event list
    \<Rightarrow> 'r ViscaCommand \<times> 'r event list" where
  "run C [] s = s"
| "run C (x # xs) s = run C xs (invoke C x s)"

subsection \<open>Field combinations that the wire format can carry\<close>

text \<open>The four request opcodes that the decoder takes whole, with socket 0.\<close>
definition standalone :: "Constants \<Rightarrow> int \<Rightarrow> bool" where
  "standalone C b = (b = MSGTYPE_COMMAND C \<or> b = MSGTYPE_INQUIRY C
     \<or> b = MSGTYPE_ADDRESS_SET C \<or> b = MSGTYPE_NETCHANGE C)"

text \<open>The header masks select bits 6-4, 2-0 and 3, as the header layout has them.\<close>
definition header_masks :: "Constants \<Rightarrow> bool" where
  "header_masks C = (HEADERMASK_SOURCE C = 0x70 \<and> HEADERMASK_RECIPIENT C = 0x07
     \<and> HEADERMASK_BROADCAST C = 0x08)"

text \<open>
  A source of three bits, and either the broadcast sentinel \<open>-1\<close> with the broadcast flag,
  or a recipient of three bits.
\<close>
definition valid_address :: "'r ViscaCommand \<Rightarrow> bool" where
  "valid_address c = (0 \<le> source c \<and> source c \<le> 7
     \<and> ((recipient c = - 1 \<and> broadcast c) \<or> (0 \<le> recipient c \<and> recipient c \<le> 7)))"

text \<open>
  A message type of one byte: a request opcode with socket 0, or a multiple of 0x10 with a
  socket of four bits whose combination is not a request opcode.
\<close>
definition valid_message :: "Constants \<Rightarrow> 'r ViscaCommand \<Rightarrow> bool" where
  "valid_message C c = (0 \<le> msgType c \<and> msgType c < 256
     \<and> ((standalone C (msgType c) \<and> socket c = 0)
        \<or> (msgType c mod 16 = 0 \<and> 0 \<le> socket c \<and> socket c < 16
            \<and> \<not> standalone C (js_or (msgType c) (socket c)))))"

text \<open>
  No category with at most one byte of data, or a category above 0 with at least one byte.
\<close>
definition valid_body :: "'r ViscaCommand \<Rightarrow> bool" where
  "valid_body c =
     ((dataType c = 0 \<and> length (data c) \<le> 1) \<or> (dataType c > 0 \<and> data c \<noteq> []))"

subsection \<open>What a record of calls and a run of operations contain\<close>

text \<open>The arguments of the parser's calls, in order.\<close>
fun parser_args :: "'r event \<Rightarrow> int list list" where
  "parser_args (Call_dataParser bytes) = [bytes]"
| "parser_args Call_onAck = []"
| "parser_args (Call_onError err) = []"
| "parser_args (Call_onComplete v) = []"

definition parser_calls :: "'r event list \<Rightarrow> int list list" where
  "parser_calls calls = concat (map parser_args calls)"

text \<open>The data of the completions that pass data, in order.\<close>
fun data_passed :: "operation \<Rightarrow> int list list" where
  "data_passed (HandleComplete (Some bytes)) = [bytes]"
| "data_passed (HandleComplete None) = []"
| "data_passed ToPacket = []"
| "data_passed HandleAck = []"
| "data_passed (HandleError err) = []"

definition completions_with_data :: "operation list \<Rightarrow> int list list" where
  "completions_with_data ops = concat (map data_passed ops)"

text \<open>The status that the handlers of a run leave: each one writes its own.\<close>
fun status_after :: "Constants \<Rightarrow> operation list \<Rightarrow> int \<Rightarrow> int" where
  "status_after C [] st = st"
| "status_after C (ToPacket # xs) st = status_after C xs st"
| "status_after C (HandleAck # xs) st = status_after C xs (MSGTYPE_ACK C)"
| "status_after C (HandleError err # xs) st = status_after C xs (MSGTYPE_ERROR C)"
| "status_after C (HandleComplete raw # xs) st = status_after C xs (MSGTYPE_COMPLETE C)"

subsection \<open>Typed parsers\<close>

text \<open>
  Two parsers of a caller with a typed result, as the inquiry builders pass: one gives the
  sum of the bytes, a number; the other the bytes in hexadecimal, a string, which is \<open>""\<close>
  for no bytes.
\<close>
definition sum_parser :: "int list \<Rightarrow> int jsval" where
  "sum_parser bytes = Value (sum_list bytes) None"

definition hex_parser :: "int list \<Rightarrow> string jsval" where
  "hex_parser bytes = Value (hexify bytes) (Some (int (length (hexify bytes))))"

section \<open>Bitwise facts\<close>

lemma ToInt32_id: "- (2 ^ 31) \<le> x \<Longrightarrow> x < 2 ^ 31 \<Longrightarrow> ToInt32 x = x"
  by (simp add: ToInt32_def signed_take_bit_int_eq_self)

lemma nibble_cases:
  assumes "0 \<le> (k::int)" "k < 16"
  shows "k \<in> {0,1,2,3,4,5,6,7,8,9,10,11,12,13,14,15}"
  using assms by simp presburger

text \<open>The message byte of a reply type and a socket splits back into the two.\<close>
lemma qq_split:
  assumes "0 \<le> m" "m < 256" "m mod 16 = 0" "0 \<le> k" "k < 16"
  shows "js_or m k = m + k \<and> js_and (m + k) 0x0F = k \<and> js_and (m + k) 0xF0 = m"
proof -
  obtain j where m: "m = 16 * j" using assms(3) by (auto simp: mod_eq_0_iff_dvd)
  with assms have "0 \<le> j" "j < 16" by auto
  then have j: "j \<in> {0,1,2,3,4,5,6,7,8,9,10,11,12,13,14,15}" by (rule nibble_cases)
  have k: "k \<in> {0,1,2,3,4,5,6,7,8,9,10,11,12,13,14,15}" using assms(4,5) by (rule nibble_cases)
  from j k show ?thesis unfolding m
    by (elim insertE emptyE; simp add: js_or_def js_and_def ToInt32_def)
qed

text \<open>Bit 3, the broadcast bit, is clear in every addressed header.\<close>
lemma header_bit3: "\<not> bit (js_or (js_or 0x80 (js_shl s 4)) (js_and r 0x111)) 3"
  by (simp add: js_or_def js_shl_def js_and_def ToInt32_def bit_simps)

text \<open>
  The addressed header of a 3-bit source and a 3-bit recipient: the mask \<open>0x111\<close> of
  \<open>_header\<close> keeps bit 0 of the recipient only.
\<close>
lemma header_addressed_value:
  assumes "0 \<le> s" "s \<le> 7" "0 \<le> r" "r \<le> 7"
  shows "js_or (js_or 0x80 (js_shl s 4)) (js_and r 0x111) = 128 + 16 * s + r mod 2"
proof -
  from assms have "s \<in> {0,1,2,3,4,5,6,7}" "r \<in> {0,1,2,3,4,5,6,7}" by auto
  then show ?thesis
    by (elim insertE emptyE; simp add: js_or_def js_shl_def js_and_def ToInt32_def)
qed

lemma decode_header:
  assumes "0 \<le> s" "s \<le> 7" "0 \<le> b" "b \<le> 1"
  shows "js_shr (js_and (128 + 16 * s + b) 0x70) 4 = s"
    and "js_and (128 + 16 * s + b) 0x07 = b"
    and "js_shr (js_and (128 + 16 * s + b) 0x08) 3 = 0"
proof -
  from assms have sb: "s \<in> {0,1,2,3,4,5,6,7}" "b \<in> {0,1}" by auto
  from sb show "js_shr (js_and (128 + 16 * s + b) 0x70) 4 = s"
    by (elim insertE emptyE; simp add: js_shr_def js_and_def ToInt32_def)
  from sb show "js_and (128 + 16 * s + b) 0x07 = b"
    by (elim insertE emptyE; simp add: js_and_def ToInt32_def)
  from sb show "js_shr (js_and (128 + 16 * s + b) 0x08) 3 = 0"
    by (elim insertE emptyE; simp add: js_shr_def js_and_def ToInt32_def)
qed

lemma decode_0x88:
  "js_shr (js_and 0x88 0x70) 4 = 0" "js_and 0x88 0x07 = 0" "js_shr (js_and 0x88 0x08) 3 = 1"
  by (simp_all add: js_shr_def js_and_def ToInt32_def)

section \<open>The encoder and the decoder\<close>

lemma slice_body: "slice (h # q # body @ [t]) 2 (int (length (h # q # body @ [t])) - 1) = body"
  by (simp add: slice_def Let_def)

lemma slice_short: "length p < 3 \<Longrightarrow> slice p 2 (int (length p) - 1) = []"
  by (auto simp add: slice_def Let_def)

lemma header_snd: "snd (header c) = (if recipient c > - 1 then c\<lparr>broadcast := False\<rparr> else c)"
  by (simp add: header_def Let_def)

lemma header_fst_addressed:
  assumes "0 \<le> recipient c" "recipient c \<le> 7" "0 \<le> source c" "source c \<le> 7"
  shows "fst (header c) = 128 + 16 * source c + recipient c mod 2"
  using assms header_addressed_value[of "source c" "recipient c"]
  by (simp add: header_def Let_def)

lemma header_fst_broadcast:
  assumes "recipient c = - 1" "broadcast c"
  shows "fst (header c) = 0x88"
  using assms by (simp add: header_def Let_def)

lemma toPacket_snd: "snd (toPacket c) = snd (header c)"
  by (simp add: toPacket_def header_def Let_def split: prod.splits)

lemma toPacket_fst:
  "fst (toPacket c) = fst (header c) # js_or (msgType c) (socket c)
      # ((if dataType c > 0 then [dataType c] else []) @ data c) @ [0xff]"
  by (simp add: toPacket_def header_def Let_def split: prod.splits)

text \<open>What the decoder reads from a frame of a header, a message byte, a body and one more byte.\<close>
lemma fromPacket_frame:
  fixes d :: "'r ViscaCommand"
  assumes d: "d = fromPacket C (h # q # body @ [t])"
  shows "source d = js_shr (js_and h (HEADERMASK_SOURCE C)) 4"
    and "recipient d = js_and h (HEADERMASK_RECIPIENT C)"
    and "broadcast d = (js_shr (js_and h (HEADERMASK_BROADCAST C)) 3 = 1)"
    and "msgType d = (if standalone C q then q else js_and q 0xF0)"
    and "socket d = (if standalone C q then 0 else js_and q 0x0F)"
    and "data d = (if length body < 2 then body else tl body)"
    and "dataType d = (if length body < 2 then 0 else hd body)"
  unfolding d fromPacket_def parsePacket_def slice_body
  by (simp_all add: Let_def index_def num_def standalone_def)

lemma message_roundtrip:
  assumes "valid_message C c"
  shows "(if standalone C (js_or (msgType c) (socket c)) then js_or (msgType c) (socket c)
          else js_and (js_or (msgType c) (socket c)) 0xF0) = msgType c
     \<and> (if standalone C (js_or (msgType c) (socket c)) then 0
          else js_and (js_or (msgType c) (socket c)) 0x0F) = socket c"
proof -
  from assms have r: "0 \<le> msgType c" "msgType c < 256" by (simp_all add: valid_message_def)
  then have z: "js_or (msgType c) 0 = msgType c"
    by (simp add: js_or_def ToInt32_id)
  from assms consider
      (alone) "standalone C (msgType c)" "socket c = 0"
    | (reply) "msgType c mod 16 = 0" "0 \<le> socket c" "socket c < 16"
        "\<not> standalone C (js_or (msgType c) (socket c))"
    by (auto simp: valid_message_def)
  then show ?thesis
  proof cases
    case alone
    then show ?thesis by (simp add: z)
  next
    case reply
    with r qq_split[of "msgType c" "socket c"] show ?thesis by simp
  qed
qed

lemma body_roundtrip:
  assumes "valid_body c"
  defines "body \<equiv> (if dataType c > 0 then [dataType c] else []) @ data c"
  shows "(if length body < 2 then body else tl body) = data c"
    and "(if length body < 2 then 0 else hd body) = dataType c"
  using assms(1) unfolding body_def valid_body_def
  by (auto simp: Suc_le_eq less_Suc_eq_le dest: length_greater_0_conv[THEN iffD2])

text \<open>The definitions that evaluate an encoder or decoder call on concrete bytes.\<close>
lemmas eval_defs = cmdCamera_def cmd_def new_ViscaCommand_def no_params_def default_def
  toPacket_def header_def C_visca_def js_or_def js_and_def js_shl_def js_shr_def ToInt32_def
  Let_def fromPacket_def parsePacket_def index_def num_def slice_def

text \<open>The constructor runs \<open>_header\<close> too: a recipient in its parameters clears \<open>broadcast\<close>.\<close>
lemma new_ViscaCommand_broadcast:
  assumes "p_recipient p = Some r" "r > - 1"
  shows "\<not> broadcast (new_ViscaCommand C p)"
  using assms
  by (simp add: new_ViscaCommand_def toPacket_def header_def Let_def default_def
      split: prod.splits)

text \<open>\<open>new ViscaCommand({})\<close>, the command that \<open>fromPacket\<close> starts from.\<close>
lemma new_ViscaCommand_no_params:
  "new_ViscaCommand C no_params
     = \<lparr> source = 0, recipient = - 1, broadcast = True, msgType = MSGTYPE_COMMAND C, socket = 0,
         dataType = 0, data = [],
         packetHexString = hexify [0x88, js_or (MSGTYPE_COMMAND C) 0, 0xff],
         status = 0, description = [],
         dataParser = Some NoParser_parse, onAck = False, onComplete = False, onError = False \<rparr>"
  by (simp add: new_ViscaCommand_def no_params_def default_def toPacket_def header_def Let_def)

lemma new_ViscaCommand_body:
  "data (new_ViscaCommand C p) = default [] (p_data p)"
  "dataType (new_ViscaCommand C p) = default 0 (p_dataType p)"
  by (simp_all add: new_ViscaCommand_def toPacket_def header_def Let_def split: prod.splits)

section \<open>The lifecycle handlers and runs of operations\<close>

text \<open>What each handler returns: the command with its status written, and the calls it adds.\<close>
lemma handleAck_eq:
  "handleAck C (c, calls)
     = (c\<lparr>status := MSGTYPE_ACK C\<rparr>, calls @ (if onAck c then [Call_onAck] else []))"
  by (simp add: Let_def)

lemma handleError_eq:
  "handleError C err (c, calls)
     = (c\<lparr>status := MSGTYPE_ERROR C\<rparr>, calls @ (if onError c then [Call_onError err] else []))"
  by (simp add: Let_def)

lemma handleComplete_fst:
  "fst (handleComplete C raw (c, calls)) = c\<lparr>status := MSGTYPE_COMPLETE C\<rparr>"
  by (simp add: Let_def split: prod.splits option.splits)

lemma handleComplete_None:
  "snd (handleComplete C None (c, calls))
     = calls @ (if onComplete c then [Call_onComplete None] else [])"
  by (simp add: Let_def split: option.splits)

lemma handleComplete_unparsed:
  assumes "dataParser c = None"
  shows "snd (handleComplete C (Some bytes) (c, calls))
     = calls @ (if \<not> onComplete c then []
                else if bytes = [] then [Call_onComplete None]
                else [Call_onComplete (Some (Array bytes))])"
  using assms by (simp add: Let_def)

lemma handleComplete_parsed:
  assumes "dataParser c = Some parse"
  shows "snd (handleComplete C (Some bytes) (c, calls))
     = calls @ [Call_dataParser bytes]
         @ (if \<not> onComplete c then []
            else if no_data (parse bytes) then [Call_onComplete None]
            else [Call_onComplete (Some (parse bytes))])"
  using assms by (simp add: Let_def)

lemma invoke_fst:
  "fst (invoke C x (c, calls))
     = c\<lparr>status := status_after C [x] (status c),
         broadcast := (if x = ToPacket \<and> recipient c > - 1 then False else broadcast c)\<rparr>"
proof (cases x)
  case ToPacket
  then show ?thesis by (simp add: toPacket_snd header_snd)
next
  case HandleAck
  then show ?thesis by (simp add: handleAck_eq del: handleAck.simps)
next
  case (HandleError err)
  then show ?thesis by (simp add: handleError_eq del: handleError.simps)
next
  case (HandleComplete raw)
  then show ?thesis by (simp add: handleComplete_fst del: handleComplete.simps)
qed

lemma status_after_Cons: "status_after C (x # xs) st = status_after C xs (status_after C [x] st)"
  by (cases x) simp_all

lemma run_fst:
  "fst (run C ops (c, calls))
     = c\<lparr>status := status_after C ops (status c),
         broadcast := (if ToPacket \<in> set ops \<and> recipient c > - 1 then False else broadcast c)\<rparr>"
proof (induction ops arbitrary: c calls)
  case Nil
  then show ?case by simp
next
  case (Cons x xs)
  obtain c1 calls1 where s: "invoke C x (c, calls) = (c1, calls1)"
    by (cases "invoke C x (c, calls)")
  have c1: "c1 = c\<lparr>status := status_after C [x] (status c),
         broadcast := (if x = ToPacket \<and> recipient c > - 1 then False else broadcast c)\<rparr>"
    using invoke_fst[of C x c calls] s by simp
  have "fst (run C (x # xs) (c, calls)) = fst (run C xs (c1, calls1))"
    by (simp add: s)
  also have "\<dots> = c1\<lparr>status := status_after C xs (status c1),
         broadcast := (if ToPacket \<in> set xs \<and> recipient c1 > - 1 then False else broadcast c1)\<rparr>"
    by (rule Cons.IH)
  also have "\<dots> = c\<lparr>status := status_after C (x # xs) (status c),
         broadcast := (if ToPacket \<in> set (x # xs) \<and> recipient c > - 1 then False else broadcast c)\<rparr>"
    unfolding c1 status_after_Cons[of C x xs] by auto
  finally show ?case .
qed

lemma handleComplete_snd_cases:
  obtains (none) "raw = None"
      "snd (handleComplete C raw (c, calls))
         = calls @ (if onComplete c then [Call_onComplete None] else [])"
    | (unparsed) bytes where "raw = Some bytes" "dataParser c = None"
      "snd (handleComplete C raw (c, calls))
         = calls @ (if \<not> onComplete c then []
                else if bytes = [] then [Call_onComplete None]
                else [Call_onComplete (Some (Array bytes))])"
    | (parsed) bytes parse where "raw = Some bytes" "dataParser c = Some parse"
      "snd (handleComplete C raw (c, calls))
         = calls @ [Call_dataParser bytes]
         @ (if \<not> onComplete c then []
            else if no_data (parse bytes) then [Call_onComplete None]
            else [Call_onComplete (Some (parse bytes))])"
proof (cases raw)
  case None
  then show ?thesis using handleComplete_None[of C c calls] none by simp
next
  case (Some bytes)
  show ?thesis
  proof (cases "dataParser c")
    case None
    then show ?thesis using Some handleComplete_unparsed[of c C bytes calls] unparsed by simp
  next
    case (Some parse)
    then show ?thesis using \<open>raw = Some bytes\<close> handleComplete_parsed[of c parse C bytes calls] parsed
      by simp
  qed
qed

lemma invoke_calls:
  "length (filter is_onAck (snd (invoke C x (c, calls))))
     = length (filter is_onAck calls) + (if onAck c \<and> is_HandleAck x then 1 else 0)"
  "length (filter is_onError (snd (invoke C x (c, calls))))
     = length (filter is_onError calls) + (if onError c \<and> is_HandleError x then 1 else 0)"
  "length (filter is_onComplete (snd (invoke C x (c, calls))))
     = length (filter is_onComplete calls) + (if onComplete c \<and> is_HandleComplete x then 1 else 0)"
  "parser_calls (snd (invoke C x (c, calls)))
     = parser_calls calls
       @ (if dataParser c = None then [] else data_passed x)"
proof -
  show "length (filter is_onAck (snd (invoke C x (c, calls))))
     = length (filter is_onAck calls) + (if onAck c \<and> is_HandleAck x then 1 else 0)"
  proof (cases x)
    case (HandleComplete raw)
    show ?thesis unfolding HandleComplete invoke.simps
      by (rule handleComplete_snd_cases[of raw C c calls]) simp_all
  qed (simp_all add: handleAck_eq handleError_eq del: handleAck.simps handleError.simps)
  show "length (filter is_onError (snd (invoke C x (c, calls))))
     = length (filter is_onError calls) + (if onError c \<and> is_HandleError x then 1 else 0)"
  proof (cases x)
    case (HandleComplete raw)
    show ?thesis unfolding HandleComplete invoke.simps
      by (rule handleComplete_snd_cases[of raw C c calls]) simp_all
  qed (simp_all add: handleAck_eq handleError_eq del: handleAck.simps handleError.simps)
  show "length (filter is_onComplete (snd (invoke C x (c, calls))))
     = length (filter is_onComplete calls) + (if onComplete c \<and> is_HandleComplete x then 1 else 0)"
  proof (cases x)
    case (HandleComplete raw)
    show ?thesis unfolding HandleComplete invoke.simps
      by (rule handleComplete_snd_cases[of raw C c calls]) simp_all
  qed (simp_all add: handleAck_eq handleError_eq del: handleAck.simps handleError.simps)
  show "parser_calls (snd (invoke C x (c, calls)))
     = parser_calls calls
       @ (if dataParser c = None then [] else data_passed x)"
  proof (cases x)
    case (HandleComplete raw)
    show ?thesis unfolding HandleComplete invoke.simps
      by (rule handleComplete_snd_cases[of raw C c calls]) (simp_all add: parser_calls_def)
  qed (simp_all add: handleAck_eq handleError_eq parser_calls_def
         del: handleAck.simps handleError.simps)
qed

lemma invoke_keeps:
  "onAck (fst (invoke C x (c, calls))) = onAck c"
  "onError (fst (invoke C x (c, calls))) = onError c"
  "onComplete (fst (invoke C x (c, calls))) = onComplete c"
  "dataParser (fst (invoke C x (c, calls))) = dataParser c"
  by (simp_all add: invoke_fst del: invoke.simps)

lemmas handler_defs = eval_defs NoParser_parse_def

section \<open>The claims\<close>

text \<open>
  C1, as amended. Decoding the encoded packet reproduces \<open>msgType\<close>, \<open>socket\<close>,
  \<open>dataType\<close> and \<open>data\<close> of every command whose fields the wire format can carry, and the
  \<open>broadcast\<close> flag as the encoder leaves it. Of a command addressed to a device 0..7 it
  reproduces \<open>source\<close> as well, with \<open>broadcast\<close> false, and \<open>recipient\<close> when that is 0
  or 1. Of a broadcast command (recipient \<open>-1\<close>) the decoded \<open>source\<close> and \<open>recipient\<close> are
  both 0: the header 0x88 carries neither.
\<close>
theorem roundtrip_of_carried_fields:
  fixes c :: "'r ViscaCommand" and d :: "'q ViscaCommand"
  assumes masks: "header_masks C"
    and addr: "valid_address c"
    and msg: "valid_message C c"
    and body: "valid_body c"
    and d: "d = fromPacket C (fst (toPacket c))"
  shows "msgType d = msgType c \<and> socket d = socket c \<and> dataType d = dataType c
    \<and> data d = data c \<and> broadcast d = broadcast (snd (toPacket c))
    \<and> (0 \<le> recipient c \<longrightarrow> source d = source c \<and> \<not> broadcast d)
    \<and> (recipient c = 0 \<or> recipient c = 1 \<longrightarrow> recipient d = recipient c)
    \<and> (recipient c = - 1 \<longrightarrow> broadcast d \<and> source d = 0 \<and> recipient d = 0)"
proof -
  let ?h = "fst (header c)"
  let ?q = "js_or (msgType c) (socket c)"
  let ?b = "(if dataType c > 0 then [dataType c] else []) @ data c"
  have d': "d = fromPacket C (?h # ?q # ?b @ [0xff])"
    unfolding d toPacket_fst ..
  note f = fromPacket_frame[OF d']
  from masks have m: "HEADERMASK_SOURCE C = 0x70" "HEADERMASK_RECIPIENT C = 0x07"
    "HEADERMASK_BROADCAST C = 0x08" by (simp_all add: header_masks_def)
  have 1: "msgType d = msgType c" "socket d = socket c"
    using f(4,5) message_roundtrip[OF msg] by simp_all
  have 2: "dataType d = dataType c" "data d = data c"
    using f(6,7) body_roundtrip[OF body] by simp_all
  from addr have s: "0 \<le> source c" "source c \<le> 7" by (simp_all add: valid_address_def)
  from addr consider
      (broadcast) "recipient c = - 1" "broadcast c"
    | (addressed) "0 \<le> recipient c" "recipient c \<le> 7"
    by (auto simp: valid_address_def)
  then have 3: "broadcast d = broadcast (snd (toPacket c))
    \<and> (0 \<le> recipient c \<longrightarrow> source d = source c \<and> \<not> broadcast d)
    \<and> (recipient c = 0 \<or> recipient c = 1 \<longrightarrow> recipient d = recipient c)
    \<and> (recipient c = - 1 \<longrightarrow> broadcast d \<and> source d = 0 \<and> recipient d = 0)"
  proof cases
    case broadcast
    then have h: "?h = 0x88" by (rule header_fst_broadcast)
    show ?thesis using broadcast f(1,2,3) decode_0x88
      by (simp add: h m toPacket_snd header_snd)
  next
    case addressed
    have b: "0 \<le> recipient c mod 2" "recipient c mod 2 \<le> 1" by simp_all
    have h: "?h = 128 + 16 * source c + recipient c mod 2"
      using addressed s by (rule header_fst_addressed)
    have "source d = source c" using f(1) decode_header(1)[OF s b] by (simp add: h m)
    moreover have "recipient d = recipient c mod 2"
      using f(2) decode_header(2)[OF s b] by (simp add: h m)
    moreover have "\<not> broadcast d" using f(3) decode_header(3)[OF s b] by (simp add: h m)
    ultimately show ?thesis using addressed
      by (auto simp add: toPacket_snd header_snd)
  qed
  from 1 2 3 show ?thesis by blast
qed

text \<open>
  The witness of C1: the power-on command to device 1, \<open>81 01 04 00 02 FF\<close>, decodes to the
  fields it was built from.
\<close>
theorem roundtrip_of_carried_fields_witness:
  "header_masks C_visca
   \<and> valid_address (cmdCamera C_visca 1 [0, 2] [] :: unit ViscaCommand)
   \<and> valid_message C_visca (cmdCamera C_visca 1 [0, 2] [] :: unit ViscaCommand)
   \<and> valid_body (cmdCamera C_visca 1 [0, 2] [] :: unit ViscaCommand)
   \<and> fst (toPacket (cmdCamera C_visca 1 [0, 2] [] :: unit ViscaCommand))
       = [0x81, 0x01, 0x04, 0x00, 0x02, 0xff]
   \<and> source (fromPacket C_visca [0x81, 0x01, 0x04, 0x00, 0x02, 0xff] :: unit ViscaCommand) = 0
   \<and> recipient (fromPacket C_visca [0x81, 0x01, 0x04, 0x00, 0x02, 0xff] :: unit ViscaCommand) = 1
   \<and> \<not> broadcast (fromPacket C_visca [0x81, 0x01, 0x04, 0x00, 0x02, 0xff] :: unit ViscaCommand)
   \<and> msgType (fromPacket C_visca [0x81, 0x01, 0x04, 0x00, 0x02, 0xff] :: unit ViscaCommand) = 0x01
   \<and> socket (fromPacket C_visca [0x81, 0x01, 0x04, 0x00, 0x02, 0xff] :: unit ViscaCommand) = 0
   \<and> dataType (fromPacket C_visca [0x81, 0x01, 0x04, 0x00, 0x02, 0xff] :: unit ViscaCommand) = 0x04
   \<and> data (fromPacket C_visca [0x81, 0x01, 0x04, 0x00, 0x02, 0xff] :: unit ViscaCommand) = [0x00, 0x02]"
proof -
  let ?c = "cmdCamera C_visca 1 [0, 2] [] :: unit ViscaCommand"
  let ?d = "fromPacket C_visca [0x81, 0x01, 0x04, 0x00, 0x02, 0xff] :: unit ViscaCommand"
  have c: "source ?c = 0" "recipient ?c = 1" "msgType ?c = 1" "socket ?c = 0"
    "dataType ?c = 4" "data ?c = [0, 2]"
    by (simp_all add: eval_defs)
  have p: "fst (toPacket ?c) = [0x81, 0x01, 0x04, 0x00, 0x02, 0xff]"
    by (simp add: eval_defs)
  have 1: "header_masks C_visca" by (simp add: header_masks_def C_visca_def)
  have 2: "valid_address ?c" by (simp add: valid_address_def c)
  have 3: "valid_message C_visca ?c"
    by (simp add: valid_message_def c standalone_def) (simp add: C_visca_def)
  have 4: "valid_body ?c" by (simp add: valid_body_def c)
  have 5: "?d = fromPacket C_visca (fst (toPacket ?c))" by (simp only: p)
  from roundtrip_of_carried_fields[OF 1 2 3 4 5]
  have "msgType ?d = 1 \<and> socket ?d = 0 \<and> dataType ?d = 4 \<and> data ?d = [0, 2]
    \<and> source ?d = 0 \<and> \<not> broadcast ?d \<and> recipient ?d = 1"
    unfolding c by auto
  with 1 2 3 4 p show ?thesis by simp
qed

text \<open>
  The counterexample of C1 as it is stated: the broadcast power-on command has the recipient
  \<open>-1\<close>, is encoded as \<open>88 01 04 00 02 FF\<close>, and that packet decodes to the recipient 0.
\<close>
theorem roundtrip_counterexample:
  "recipient (cmdCamera C_visca (- 1) [0, 2] [] :: unit ViscaCommand) = - 1
   \<and> fst (toPacket (cmdCamera C_visca (- 1) [0, 2] [] :: unit ViscaCommand))
       = [0x88, 0x01, 0x04, 0x00, 0x02, 0xff]
   \<and> recipient (fromPacket C_visca [0x88, 0x01, 0x04, 0x00, 0x02, 0xff] :: unit ViscaCommand) = 0"
  by (simp add: eval_defs)

text \<open>
  C2, at the input where the code leaves it: the command to device 2 from source 0 is
  encoded with the header \<open>0x80\<close>, where \<open>0x80 | (source << 4) | (recipient & 0x07)\<close> is
  \<open>0x82\<close>. \<open>_header\<close> masks the recipient with \<open>0x111\<close> (hexadecimal, 273), which keeps
  bit 0 of a device id and drops bits 1 and 2.
\<close>
theorem header_drops_recipient_bits:
  "source (cmdCamera C_visca 2 [0, 2] [] :: unit ViscaCommand) = 0
   \<and> recipient (cmdCamera C_visca 2 [0, 2] [] :: unit ViscaCommand) = 2
   \<and> fst (toPacket (cmdCamera C_visca 2 [0, 2] [] :: unit ViscaCommand))
       = [0x80, 0x01, 0x04, 0x00, 0x02, 0xff]
   \<and> js_or (js_or 0x80 (js_shl 0 4)) (js_and 2 0x07) = 0x82"
  by (simp add: eval_defs)

text \<open>
  C3, as amended. A transition invoked on a command writes its status and calls its
  callback, when that is defined, whatever the status before, a terminal one included: in
  every run of operations each callback is called once for every invocation of its
  transition, and the status is the one the handlers of the run leave.
\<close>
theorem callbacks_fire_per_transition:
  "length (filter is_onAck (snd (run C ops (c, calls))))
     = length (filter is_onAck calls) + (if onAck c then length (filter is_HandleAck ops) else 0)
   \<and> length (filter is_onError (snd (run C ops (c, calls))))
     = length (filter is_onError calls)
       + (if onError c then length (filter is_HandleError ops) else 0)
   \<and> length (filter is_onComplete (snd (run C ops (c, calls))))
     = length (filter is_onComplete calls)
       + (if onComplete c then length (filter is_HandleComplete ops) else 0)
   \<and> status (fst (run C ops (c, calls))) = status_after C ops (status c)"
proof (induction ops arbitrary: c calls)
  case Nil
  then show ?case by simp
next
  case (Cons x xs)
  obtain c1 calls1 where s: "invoke C x (c, calls) = (c1, calls1)"
    by (cases "invoke C x (c, calls)")
  from s have c1: "c1 = fst (invoke C x (c, calls))" and calls1: "calls1 = snd (invoke C x (c, calls))"
    by simp_all
  have r: "run C (x # xs) (c, calls) = run C xs (c1, calls1)" by (simp add: s)
  have st: "status c1 = status_after C [x] (status c)"
    unfolding c1 by (simp add: invoke_fst del: invoke.simps)
  show ?case unfolding r
    using Cons.IH[of c1 calls1]
    unfolding st status_after_Cons[of C x xs, symmetric]
    unfolding c1 calls1 invoke_keeps invoke_calls
    by simp
qed

text \<open>
  The counterexample of C3 as it is stated: a command that completes has the terminal status
  0x50 and one call of \<open>onComplete\<close>; completing it again calls \<open>onComplete\<close> again.
\<close>
theorem terminal_transition_counterexample:
  "status (fst (run C_visca [HandleComplete None]
       (new_ViscaCommand C_visca (no_params\<lparr>p_onComplete := True\<rparr>) :: unit ViscaCommand, []))) = 0x50
   \<and> snd (run C_visca [HandleComplete None]
       (new_ViscaCommand C_visca (no_params\<lparr>p_onComplete := True\<rparr>) :: unit ViscaCommand, []))
      = [Call_onComplete None]
   \<and> snd (run C_visca [HandleComplete None, HandleComplete None]
       (new_ViscaCommand C_visca (no_params\<lparr>p_onComplete := True\<rparr>) :: unit ViscaCommand, []))
      = [Call_onComplete None, Call_onComplete None]"
  by (simp add: handler_defs)

text \<open>
  C4, as amended. \<open>handleComplete\<close> sets the status to the completion type. With data
  and a parser it calls the parser on the data and goes on with the result; \<open>onComplete\<close>,
  when defined, is called with no argument if there is no data or the data is empty after
  parsing (undefined, or of length 0), and with the parsed result otherwise. So a command
  (in any state, so a pending one) that is acknowledged and then completed with \<open>[]\<close> has
  \<open>onAck\<close> called once, and \<open>onComplete\<close> called with no argument when it has no parser or
  the parser's result on \<open>[]\<close> is empty, as that of the default parser is, and with the
  parser's result on \<open>[]\<close> otherwise; and a command with a parser that is completed with
  \<open>[0x02, 0x03]\<close> has \<open>onComplete\<close> called with the parser's result on these bytes when
  that result is not empty, and with no argument when it is.
\<close>
theorem handleComplete_contract:
  "status (fst (handleComplete C raw (c, calls))) = MSGTYPE_COMPLETE C
   \<and> (raw = None \<longrightarrow> snd (handleComplete C raw (c, calls))
         = calls @ (if onComplete c then [Call_onComplete None] else []))
   \<and> (\<forall>bytes. raw = Some bytes \<and> dataParser c = None \<longrightarrow>
         snd (handleComplete C raw (c, calls))
         = calls @ (if \<not> onComplete c then []
                    else if bytes = [] then [Call_onComplete None]
                    else [Call_onComplete (Some (Array bytes))]))
   \<and> (\<forall>bytes parse. raw = Some bytes \<and> dataParser c = Some parse \<longrightarrow>
         snd (handleComplete C raw (c, calls))
         = calls @ [Call_dataParser bytes]
             @ (if \<not> onComplete c then []
                else if no_data (parse bytes) then [Call_onComplete None]
                else [Call_onComplete (Some (parse bytes))]))
   \<and> (onAck c \<and> onComplete c \<and> dataParser c = None \<longrightarrow>
         snd (run C [HandleAck, HandleComplete (Some [])] (c, []))
         = [Call_onAck, Call_onComplete None])
   \<and> (\<forall>parse. onAck c \<and> onComplete c \<and> dataParser c = Some parse \<longrightarrow>
         snd (run C [HandleAck, HandleComplete (Some [])] (c, []))
         = [Call_onAck, Call_dataParser [],
            Call_onComplete (if no_data (parse []) then None else Some (parse []))])
   \<and> (\<forall>parse. onComplete c \<and> dataParser c = Some parse \<longrightarrow>
         snd (run C [HandleComplete (Some [0x02, 0x03])] (c, []))
         = [Call_dataParser [0x02, 0x03],
            Call_onComplete (if no_data (parse [0x02, 0x03]) then None
                             else Some (parse [0x02, 0x03]))])"
proof (intro conjI allI impI)
  show "status (fst (handleComplete C raw (c, calls))) = MSGTYPE_COMPLETE C"
    by (simp add: handleComplete_fst del: handleComplete.simps)
next
  assume "raw = None"
  then show "snd (handleComplete C raw (c, calls))
      = calls @ (if onComplete c then [Call_onComplete None] else [])"
    by (simp add: handleComplete_None del: handleComplete.simps)
next
  fix bytes assume "raw = Some bytes \<and> dataParser c = None"
  then show "snd (handleComplete C raw (c, calls))
         = calls @ (if \<not> onComplete c then []
                    else if bytes = [] then [Call_onComplete None]
                    else [Call_onComplete (Some (Array bytes))])"
    by (simp add: handleComplete_unparsed del: handleComplete.simps)
next
  fix bytes parse assume "raw = Some bytes \<and> dataParser c = Some parse"
  then show "snd (handleComplete C raw (c, calls))
         = calls @ [Call_dataParser bytes]
             @ (if \<not> onComplete c then []
                else if no_data (parse bytes) then [Call_onComplete None]
                else [Call_onComplete (Some (parse bytes))])"
    by (simp add: handleComplete_parsed del: handleComplete.simps)
next
  assume a: "onAck c \<and> onComplete c \<and> dataParser c = None"
  let ?c1 = "c\<lparr>status := MSGTYPE_ACK C\<rparr>"
  from a have p: "dataParser ?c1 = None" by simp
  from a show "snd (run C [HandleAck, HandleComplete (Some [])] (c, []))
         = [Call_onAck, Call_onComplete None]"
    using handleComplete_unparsed[OF p, of C "[]" "[Call_onAck]"]
    by (simp add: handleAck_eq del: handleAck.simps handleComplete.simps)
next
  fix parse
  assume a: "onAck c \<and> onComplete c \<and> dataParser c = Some parse"
  let ?c1 = "c\<lparr>status := MSGTYPE_ACK C\<rparr>"
  from a have p: "dataParser ?c1 = Some parse" by simp
  from a show "snd (run C [HandleAck, HandleComplete (Some [])] (c, []))
         = [Call_onAck, Call_dataParser [],
            Call_onComplete (if no_data (parse []) then None else Some (parse []))]"
    using handleComplete_parsed[OF p, of C "[]" "[Call_onAck]"]
    by (simp add: handleAck_eq del: handleAck.simps handleComplete.simps)
next
  fix parse
  assume a: "onComplete c \<and> dataParser c = Some parse"
  then have p: "dataParser c = Some parse" by simp
  from a show "snd (run C [HandleComplete (Some [0x02, 0x03])] (c, []))
         = [Call_dataParser [0x02, 0x03],
            Call_onComplete (if no_data (parse [0x02, 0x03]) then None
                             else Some (parse [0x02, 0x03]))]"
    using handleComplete_parsed[OF p, of C "[0x02, 0x03]" "[]"]
    by (simp del: handleComplete.simps)
qed

text \<open>
  The witness of C4: commands with both callbacks and the default parser, with the parser
  of a number, with the parser of a string, and with no parser.
\<close>
theorem handleComplete_contract_witness:
  "onAck (new_ViscaCommand C_visca (no_params\<lparr>p_onAck := True, p_onComplete := True\<rparr>) :: int ViscaCommand)
   \<and> onComplete (new_ViscaCommand C_visca (no_params\<lparr>p_onAck := True, p_onComplete := True\<rparr>) :: int ViscaCommand)
   \<and> dataParser (new_ViscaCommand C_visca (no_params\<lparr>p_onAck := True, p_onComplete := True\<rparr>) :: int ViscaCommand)
       = Some NoParser_parse
   \<and> status (new_ViscaCommand C_visca (no_params\<lparr>p_onAck := True, p_onComplete := True\<rparr>) :: int ViscaCommand) = 0
   \<and> snd (run C_visca [HandleAck, HandleComplete (Some [])]
        (new_ViscaCommand C_visca (no_params\<lparr>p_onAck := True, p_onComplete := True\<rparr>) :: int ViscaCommand, []))
       = [Call_onAck, Call_dataParser [], Call_onComplete None]
   \<and> snd (run C_visca [HandleAck, HandleComplete (Some [])]
        ((new_ViscaCommand C_visca (no_params\<lparr>p_onAck := True, p_onComplete := True\<rparr>) :: int ViscaCommand)
           \<lparr>dataParser := None\<rparr>, []))
       = [Call_onAck, Call_onComplete None]
   \<and> snd (run C_visca [HandleAck, HandleComplete (Some [])]
        (new_ViscaCommand C_visca
           (no_params\<lparr>p_onAck := True, p_onComplete := True, p_dataParser := Some hex_parser\<rparr>), []))
       = [Call_onAck, Call_dataParser [], Call_onComplete None]
   \<and> snd (run C_visca [HandleComplete (Some [0x02, 0x03])]
        (new_ViscaCommand C_visca (no_params\<lparr>p_onComplete := True, p_dataParser := Some sum_parser\<rparr>), []))
       = [Call_dataParser [0x02, 0x03], Call_onComplete (Some (Value 5 None))]
   \<and> status (fst (handleComplete C_visca None
        (new_ViscaCommand C_visca (no_params\<lparr>p_onComplete := True\<rparr>) :: int ViscaCommand, []))) = 0x50
   \<and> snd (handleComplete C_visca None
        (new_ViscaCommand C_visca (no_params\<lparr>p_onComplete := True\<rparr>) :: int ViscaCommand, []))
       = [Call_onComplete None]
   \<and> snd (handleComplete C_visca (Some [0x02])
        ((new_ViscaCommand C_visca (no_params\<lparr>p_onComplete := True\<rparr>) :: int ViscaCommand)\<lparr>dataParser := None\<rparr>, []))
       = [Call_onComplete (Some (Array [0x02]))]
   \<and> snd (handleComplete C_visca (Some [0x02])
        (new_ViscaCommand C_visca (no_params\<lparr>p_onComplete := True, p_dataParser := Some sum_parser\<rparr>), []))
       = [Call_dataParser [0x02], Call_onComplete (Some (Value 2 None))]"
proof -
  let ?a = "new_ViscaCommand C_visca (no_params\<lparr>p_onAck := True, p_onComplete := True\<rparr>) :: int ViscaCommand"
  let ?an = "?a\<lparr>dataParser := None\<rparr>"
  let ?h = "new_ViscaCommand C_visca
    (no_params\<lparr>p_onAck := True, p_onComplete := True, p_dataParser := Some hex_parser\<rparr>) :: string ViscaCommand"
  let ?b = "new_ViscaCommand C_visca (no_params\<lparr>p_onComplete := True, p_dataParser := Some sum_parser\<rparr>) :: int ViscaCommand"
  let ?n = "new_ViscaCommand C_visca (no_params\<lparr>p_onComplete := True\<rparr>) :: int ViscaCommand"
  let ?u = "?n\<lparr>dataParser := None\<rparr>"
  have a: "onAck ?a" "onComplete ?a" "dataParser ?a = Some NoParser_parse" "status ?a = 0"
    by (simp_all add: handler_defs)
  have an: "onAck ?an" "onComplete ?an" "dataParser ?an = None"
    by (simp_all add: handler_defs)
  have h: "onAck ?h" "onComplete ?h" "dataParser ?h = Some hex_parser"
    by (simp_all add: handler_defs)
  have b: "onComplete ?b" "dataParser ?b = Some sum_parser"
    by (simp_all add: handler_defs)
  have n: "onComplete ?n" by (simp add: handler_defs)
  have u: "onComplete ?u" "dataParser ?u = None" by (simp_all add: handler_defs)
  have e: "no_data (NoParser_parse [] :: int jsval)" "no_data (hex_parser [])"
    "\<not> no_data (sum_parser [0x02, 0x03])"
    "sum_parser [0x02, 0x03] = Value 5 None" "sum_parser [0x02] = Value 2 None"
    "\<not> no_data (sum_parser [0x02])"
    by (simp_all add: NoParser_parse_def sum_parser_def hex_parser_def hexify_def)
  note A = handleComplete_contract[of C_visca "Some []" ?a "[]"]
  note AN = handleComplete_contract[of C_visca "Some []" ?an "[]"]
  note H = handleComplete_contract[of C_visca "Some []" ?h "[]"]
  note B = handleComplete_contract[of C_visca "Some [0x02]" ?b "[]"]
  note N = handleComplete_contract[of C_visca None ?n "[]"]
  note U = handleComplete_contract[of C_visca "Some [0x02]" ?u "[]"]
  from A a have "snd (run C_visca [HandleAck, HandleComplete (Some [])] (?a, []))
       = [Call_onAck, Call_dataParser [],
          Call_onComplete (if no_data (NoParser_parse [] :: int jsval) then None
                           else Some (NoParser_parse []))]" by blast
  with e have 1: "snd (run C_visca [HandleAck, HandleComplete (Some [])] (?a, []))
       = [Call_onAck, Call_dataParser [], Call_onComplete None]" by simp
  from AN an have noparser: "snd (run C_visca [HandleAck, HandleComplete (Some [])] (?an, []))
       = [Call_onAck, Call_onComplete None]" by blast
  from H h have "snd (run C_visca [HandleAck, HandleComplete (Some [])] (?h, []))
       = [Call_onAck, Call_dataParser [],
          Call_onComplete (if no_data (hex_parser []) then None else Some (hex_parser []))]"
    by blast
  with e have hexed: "snd (run C_visca [HandleAck, HandleComplete (Some [])] (?h, []))
       = [Call_onAck, Call_dataParser [], Call_onComplete None]" by simp
  from B b have "snd (run C_visca [HandleComplete (Some [0x02, 0x03])] (?b, []))
       = [Call_dataParser [0x02, 0x03],
          Call_onComplete (if no_data (sum_parser [0x02, 0x03]) then None
                           else Some (sum_parser [0x02, 0x03]))]" by blast
  with e have 2: "snd (run C_visca [HandleComplete (Some [0x02, 0x03])] (?b, []))
       = [Call_dataParser [0x02, 0x03], Call_onComplete (Some (Value 5 None))]" by simp
  from N n have 3: "status (fst (handleComplete C_visca None (?n, []))) = 0x50"
    "snd (handleComplete C_visca None (?n, [])) = [Call_onComplete None]"
    by (simp_all add: C_visca_def del: handleComplete.simps)
  from U u have 4: "snd (handleComplete C_visca (Some [0x02]) (?u, []))
       = [Call_onComplete (Some (Array [0x02]))]" by (simp del: handleComplete.simps)
  from B b e have 5: "snd (handleComplete C_visca (Some [0x02]) (?b, []))
       = [Call_dataParser [0x02], Call_onComplete (Some (Value 2 None))]"
    by (simp del: handleComplete.simps)
  from a 1 noparser hexed 2 3 4 5 show ?thesis by blast
qed

text \<open>
  The counterexample of C4 as it is stated: a pending command with the parser of a number
  that is acknowledged and then completed with \<open>[]\<close> has \<open>onComplete\<close> called with an
  argument, the parser's result 0.
\<close>
theorem typed_parser_on_empty_completion_counterexample:
  "status (new_ViscaCommand C_visca
        (no_params\<lparr>p_onAck := True, p_onComplete := True, p_dataParser := Some sum_parser\<rparr>)) = 0
   \<and> snd (run C_visca [HandleAck, HandleComplete (Some [])]
        (new_ViscaCommand C_visca
           (no_params\<lparr>p_onAck := True, p_onComplete := True, p_dataParser := Some sum_parser\<rparr>), []))
       = [Call_onAck, Call_dataParser [], Call_onComplete (Some (Value 0 None))]"
  by (simp add: handler_defs sum_parser_def)

text \<open>
  C5, as amended. On decode a body of exactly one byte stays in \<open>data\<close> and \<open>dataType\<close> is 0;
  of a body of exactly two bytes the first is removed and stored as \<open>dataType\<close>, whatever its
  value (so \<open>dataType\<close> is non-zero exactly when that byte is). On encode the category byte
  is emitted exactly when \<open>dataType > 0\<close>.
\<close>
theorem category_byte_rule:
  "dataType (fromPacket C [h, q, b, t]) = 0
   \<and> data (fromPacket C [h, q, b, t]) = [b]
   \<and> dataType (fromPacket C [h, q, a, b, t]) = a
   \<and> data (fromPacket C [h, q, a, b, t]) = [b]
   \<and> fst (toPacket c) = fst (header c) # js_or (msgType c) (socket c)
        # (if dataType c > 0 then [dataType c] else []) @ data c @ [0xff]"
proof -
  note one = fromPacket_frame(6,7)[OF refl, where body = "[b]", simplified]
  note two = fromPacket_frame(6,7)[OF refl, where body = "[a, b]", simplified]
  show ?thesis by (simp add: one two toPacket_fst)
qed

text \<open>
  The counterexample of C5 as it is stated: the body \<open>00 01\<close> of the broadcast packet
  \<open>88 01 00 01 FF\<close> has exactly two bytes, and the decoded \<open>dataType\<close> is 0.
\<close>
theorem two_byte_body_counterexample:
  "dataType (fromPacket C_visca [0x88, 0x01, 0x00, 0x01, 0xff] :: unit ViscaCommand) = 0
   \<and> data (fromPacket C_visca [0x88, 0x01, 0x00, 0x01, 0xff] :: unit ViscaCommand) = [0x01]"
  by (simp add: eval_defs)

text \<open>
  C6, as amended. The parser is called on the completion only, once for every call of
  \<open>handleComplete\<close> that passes data, empty or not, and with that data: in every run of
  operations the arguments of the parser's calls are the data of the completions that
  pass data, in order. \<open>handleAck\<close>, \<open>handleError\<close> and \<open>toPacket\<close> never call it.
\<close>
theorem parser_called_per_completion_with_data:
  "parser_calls (snd (run C ops (c, calls)))
     = parser_calls calls @ (if dataParser c = None then [] else completions_with_data ops)"
proof (induction ops arbitrary: c calls)
  case Nil
  then show ?case by (simp add: completions_with_data_def)
next
  case (Cons x xs)
  obtain c1 calls1 where s: "invoke C x (c, calls) = (c1, calls1)"
    by (cases "invoke C x (c, calls)")
  from s have c1: "c1 = fst (invoke C x (c, calls))" and calls1: "calls1 = snd (invoke C x (c, calls))"
    by simp_all
  have r: "run C (x # xs) (c, calls) = run C xs (c1, calls1)" by (simp add: s)
  show ?case unfolding r
    using Cons.IH[of c1 calls1]
    unfolding c1 calls1 invoke_keeps invoke_calls
    by (simp add: completions_with_data_def)
qed

text \<open>
  The counterexample of C6 as it is stated: completing a command with the empty array calls
  the parser with the empty array.
\<close>
theorem parser_on_empty_data_counterexample:
  "snd (handleComplete C_visca (Some [])
       (new_ViscaCommand C_visca (no_params\<lparr>p_onComplete := True\<rparr>) :: unit ViscaCommand, []))
      = [Call_dataParser [], Call_onComplete None]"
  by (simp add: handler_defs)

text \<open>
  C7. Encoding a command whose recipient is above \<open>-1\<close> leaves \<open>broadcast\<close> false, whatever
  the flag was, and the header of the packet is not \<open>0x88\<close>: its bit 3, which the decoder
  reads as the broadcast flag, is clear.
\<close>
theorem recipient_overrides_broadcast:
  assumes "recipient c > - 1"
  shows "\<not> broadcast (snd (toPacket c)) \<and> hd (fst (toPacket c)) \<noteq> 0x88
    \<and> \<not> bit (hd (fst (toPacket c))) 3"
proof -
  let ?h = "js_or (js_or 0x80 (js_shl (source c) 4)) (js_and (recipient c) 0x111)"
  from assms have b: "\<not> broadcast (snd (toPacket c))"
    by (simp add: toPacket_snd header_snd)
  from assms have h: "hd (fst (toPacket c)) = ?h"
    by (simp add: toPacket_fst header_def Let_def)
  have 3: "\<not> bit ?h 3" by (rule header_bit3)
  have "?h \<noteq> 0x88"
  proof
    assume "?h = 0x88"
    with 3 have "\<not> bit (0x88 :: int) 3" by simp
    then show False by simp
  qed
  with b h 3 show ?thesis by simp
qed

text \<open>
  The witness of C7: the power-on command to device 1 with \<open>broadcast\<close> set to true again
  after its construction is encoded as \<open>81 01 04 00 02 FF\<close>, and the flag is false after.
\<close>
theorem recipient_overrides_broadcast_witness:
  "recipient ((cmdCamera C_visca 1 [0, 2] [] :: unit ViscaCommand)\<lparr>broadcast := True\<rparr>) > - 1
   \<and> broadcast ((cmdCamera C_visca 1 [0, 2] [] :: unit ViscaCommand)\<lparr>broadcast := True\<rparr>)
   \<and> \<not> broadcast (snd (toPacket
          ((cmdCamera C_visca 1 [0, 2] [] :: unit ViscaCommand)\<lparr>broadcast := True\<rparr>)))
   \<and> hd (fst (toPacket
          ((cmdCamera C_visca 1 [0, 2] [] :: unit ViscaCommand)\<lparr>broadcast := True\<rparr>))) \<noteq> 0x88
   \<and> fst (toPacket ((cmdCamera C_visca 1 [0, 2] [] :: unit ViscaCommand)\<lparr>broadcast := True\<rparr>))
       = [0x81, 0x01, 0x04, 0x00, 0x02, 0xff]"
proof -
  let ?c = "(cmdCamera C_visca 1 [0, 2] [] :: unit ViscaCommand)\<lparr>broadcast := True\<rparr>"
  have r: "recipient ?c > - 1" by (simp add: eval_defs)
  have p: "fst (toPacket ?c) = [0x81, 0x01, 0x04, 0x00, 0x02, 0xff]" by (simp add: eval_defs)
  from recipient_overrides_broadcast[OF r] r p show ?thesis by simp
qed

text \<open>
  C8, as amended. Decoding a malformed frame returns a command with every field set; the
  decoder has no failure. The empty frame decodes to the command with all header and message
  fields 0 and no data. A frame of one byte decodes to the source, recipient and broadcast
  flag of that byte, with message type and socket 0 and no data; a frame of two bytes to the
  header fields of the first byte and the message type and socket of the second, with no
  data; \<open>dataType\<close> is 0 in all three. Of a frame of 3 bytes or more the last byte is dropped
  without being compared with the terminator: the decoded command is that of the header,
  the message byte and the body before the last byte, and a frame without the terminator
  decodes as the same frame with its last byte replaced by \<open>0xFF\<close> (the hex string apart).
\<close>
theorem malformed_frame_decodes:
  "fromPacket C []
     = \<lparr> source = 0, recipient = 0, broadcast = False, msgType = 0, socket = 0, dataType = 0,
         data = [], packetHexString = hexify [], status = 0, description = [],
         dataParser = Some NoParser_parse, onAck = False, onComplete = False, onError = False \<rparr>
   \<and> fromPacket C [h]
     = \<lparr> source = js_shr (js_and h (HEADERMASK_SOURCE C)) 4,
         recipient = js_and h (HEADERMASK_RECIPIENT C),
         broadcast = (js_shr (js_and h (HEADERMASK_BROADCAST C)) 3 = 1),
         msgType = 0, socket = 0, dataType = 0,
         data = [], packetHexString = hexify [h], status = 0, description = [],
         dataParser = Some NoParser_parse, onAck = False, onComplete = False, onError = False \<rparr>
   \<and> fromPacket C [h, q]
     = \<lparr> source = js_shr (js_and h (HEADERMASK_SOURCE C)) 4,
         recipient = js_and h (HEADERMASK_RECIPIENT C),
         broadcast = (js_shr (js_and h (HEADERMASK_BROADCAST C)) 3 = 1),
         msgType = (if standalone C q then q else js_and q 0xF0),
         socket = (if standalone C q then 0 else js_and q 0x0F), dataType = 0,
         data = [], packetHexString = hexify [h, q], status = 0, description = [],
         dataParser = Some NoParser_parse, onAck = False, onComplete = False, onError = False \<rparr>
   \<and> fromPacket C (h # q # body @ [t])
     = \<lparr> source = js_shr (js_and h (HEADERMASK_SOURCE C)) 4,
         recipient = js_and h (HEADERMASK_RECIPIENT C),
         broadcast = (js_shr (js_and h (HEADERMASK_BROADCAST C)) 3 = 1),
         msgType = (if standalone C q then q else js_and q 0xF0),
         socket = (if standalone C q then 0 else js_and q 0x0F),
         dataType = (if length body < 2 then 0 else hd body),
         data = (if length body < 2 then body else tl body),
         packetHexString = hexify (h # q # body @ [t]), status = 0, description = [],
         dataParser = Some NoParser_parse, onAck = False, onComplete = False, onError = False \<rparr>
   \<and> fromPacket C (h # q # body @ [t])
     = (fromPacket C (h # q # body @ [0xff]))\<lparr>packetHexString := hexify (h # q # body @ [t])\<rparr>"
proof -
  have zero: "js_and 0 m = 0" "js_shr 0 n = 0" for m n
    by (simp_all add: js_and_def js_shr_def ToInt32_def)
  note new = new_ViscaCommand_no_params
  have 0: "fromPacket C []
     = \<lparr> source = 0, recipient = 0, broadcast = False, msgType = 0, socket = 0, dataType = 0,
         data = [], packetHexString = hexify [], status = 0, description = [],
         dataParser = Some NoParser_parse, onAck = False, onComplete = False, onError = False \<rparr>"
    by (simp add: fromPacket_def parsePacket_def new slice_def Let_def index_def num_def zero)
  have 1: "fromPacket C [h]
     = \<lparr> source = js_shr (js_and h (HEADERMASK_SOURCE C)) 4,
         recipient = js_and h (HEADERMASK_RECIPIENT C),
         broadcast = (js_shr (js_and h (HEADERMASK_BROADCAST C)) 3 = 1),
         msgType = 0, socket = 0, dataType = 0,
         data = [], packetHexString = hexify [h], status = 0, description = [],
         dataParser = Some NoParser_parse, onAck = False, onComplete = False, onError = False \<rparr>"
    by (simp add: fromPacket_def parsePacket_def new slice_def Let_def index_def num_def zero)
  have 2: "fromPacket C [h, q]
     = \<lparr> source = js_shr (js_and h (HEADERMASK_SOURCE C)) 4,
         recipient = js_and h (HEADERMASK_RECIPIENT C),
         broadcast = (js_shr (js_and h (HEADERMASK_BROADCAST C)) 3 = 1),
         msgType = (if standalone C q then q else js_and q 0xF0),
         socket = (if standalone C q then 0 else js_and q 0x0F), dataType = 0,
         data = [], packetHexString = hexify [h, q], status = 0, description = [],
         dataParser = Some NoParser_parse, onAck = False, onComplete = False, onError = False \<rparr>"
    by (simp add: fromPacket_def parsePacket_def new slice_def Let_def index_def num_def
        standalone_def)
  have 3: "fromPacket C (h # q # body @ [t])
     = \<lparr> source = js_shr (js_and h (HEADERMASK_SOURCE C)) 4,
         recipient = js_and h (HEADERMASK_RECIPIENT C),
         broadcast = (js_shr (js_and h (HEADERMASK_BROADCAST C)) 3 = 1),
         msgType = (if standalone C q then q else js_and q 0xF0),
         socket = (if standalone C q then 0 else js_and q 0x0F),
         dataType = (if length body < 2 then 0 else hd body),
         data = (if length body < 2 then body else tl body),
         packetHexString = hexify (h # q # body @ [t]), status = 0, description = [],
         dataParser = Some NoParser_parse, onAck = False, onComplete = False, onError = False \<rparr>"
    for t
    unfolding fromPacket_def parsePacket_def slice_body
    by (simp add: new Let_def index_def num_def standalone_def)
  have 4: "fromPacket C (h # q # body @ [t])
     = (fromPacket C (h # q # body @ [0xff]))\<lparr>packetHexString := hexify (h # q # body @ [t])\<rparr>"
    unfolding 3 by simp
  from 0 1 2 3 4 show ?thesis by blast
qed

text \<open>
  The counterexample of C8 as it is stated: the empty frame decodes to a command with every
  field set, and the frame \<open>90 50 02 03\<close>, which has no terminator, to a completion reply
  with the data \<open>02\<close>.
\<close>
theorem malformed_frame_counterexample:
  "(fromPacket C_visca [] :: unit ViscaCommand)
     = \<lparr> source = 0, recipient = 0, broadcast = False, msgType = 0, socket = 0, dataType = 0,
         data = [], packetHexString = [], status = 0, description = [],
         dataParser = Some NoParser_parse, onAck = False, onComplete = False, onError = False \<rparr>
   \<and> msgType (fromPacket C_visca [0x90, 0x50, 0x02, 0x03] :: unit ViscaCommand) = 0x50
   \<and> data (fromPacket C_visca [0x90, 0x50, 0x02, 0x03] :: unit ViscaCommand) = [0x02]"
  by (simp add: eval_defs hexify_def)

text \<open>
  C9, as amended. Every run of \<open>toPacket\<close> and the three handlers on a command leaves
  its encoded byte form unchanged and changes no field but \<open>status\<close> and \<open>broadcast\<close>:
  the status is the one that the last handler of the run writes, whatever the status before,
  and \<open>toPacket\<close> clears \<open>broadcast\<close> when the recipient is above \<open>-1\<close>.
\<close>
theorem built_command_frame:
  "fst (toPacket (fst (run C ops (c, calls)))) = fst (toPacket c)
   \<and> fst (run C ops (c, calls))
       = c\<lparr>status := status_after C ops (status c),
           broadcast := (if ToPacket \<in> set ops \<and> recipient c > - 1 then False else broadcast c)\<rparr>"
  by (simp add: run_fst) (simp add: toPacket_def header_def Let_def)

text \<open>
  The counterexample of C9 as it is stated: the command decoded from the broadcast frame
  \<open>88 01 FF\<close> has \<open>broadcast\<close> true, and false after \<open>toPacket\<close>; and its status
  after a completion is 0x50, and 0x40 after an acknowledgement that follows.
\<close>
theorem lifecycle_frame_counterexample:
  "broadcast (fromPacket C_visca [0x88, 0x01, 0xff] :: unit ViscaCommand)
   \<and> \<not> broadcast (fst (run C_visca [ToPacket]
         (fromPacket C_visca [0x88, 0x01, 0xff] :: unit ViscaCommand, [])))
   \<and> status (fst (run C_visca [HandleComplete None]
         (fromPacket C_visca [0x88, 0x01, 0xff] :: unit ViscaCommand, []))) = 0x50
   \<and> status (fst (run C_visca [HandleComplete None, HandleAck]
         (fromPacket C_visca [0x88, 0x01, 0xff] :: unit ViscaCommand, []))) = 0x40"
  by (simp add: handler_defs)

text \<open>
  C10. For every device, direction and speed (given or left out), the focus drive builder
  and the zoom drive builder give commands with the same packet: both have the camera
  category and the data \<open>[C.CAM_ZOOM, packed value]\<close>; the focus builder emits the zoom
  opcode.
\<close>
theorem focus_drive_is_zoom_drive:
  "fst (toPacket (cmdCameraFocus C device direction speed :: 'r ViscaCommand))
     = fst (toPacket (cmdCameraZoom C device direction speed :: 'r ViscaCommand))
   \<and> dataType (cmdCameraFocus C device direction speed :: 'r ViscaCommand) = DATATYPE_CAMERA C
   \<and> data (cmdCameraFocus C device direction speed :: 'r ViscaCommand)
       = [CAM_ZOOM C,
          if default (- 1) speed > - 1 \<and> default (DATA_RESET C) direction \<noteq> DATA_RESET C
          then js_shl (default (DATA_RESET C) direction) 8 + js_and (default (- 1) speed) 7
          else default (DATA_RESET C) direction]
   \<and> data (cmdCameraZoom C device direction speed :: 'r ViscaCommand)
       = data (cmdCameraFocus C device direction speed :: 'r ViscaCommand)"
proof -
  have same: "(cmdCameraFocus C device direction speed :: 'r ViscaCommand)
      = cmdCameraZoom C device direction speed"
    by (simp add: cmdCameraFocus_def cmdCameraZoom_def)
  show ?thesis
    by (simp add: same)
       (simp add: cmdCameraZoom_def Let_def cmdCamera_def cmd_def new_ViscaCommand_body default_def)
qed

end
